theory Spec2Isabelle
  imports Main "HOL-Library.Multiset"
begin

section \<open>The project router of the Rails application\<close>

text \<open>
  The source is \<^verbatim>\<open>src/server/api/routers/project.ts\<close>: a tRPC router whose procedures
  check their input with a zod schema and then call the Prisma client. The procedures are
  embedded as functions on an explicit store; a mutation returns the store it leaves
  together with its result, and every throw of the source is a value \<open>Inl e\<close>.
\<close>

subsection \<open>Data model\<close>

type_synonym ident = string

datatype ProjectType = KANBAN | SCRUM

record ProjectInfo =
  defaultWorkflows :: "string list"
  projectName :: string

record user =
  user_id :: ident
  user_name :: string
  user_image :: "string option"
  user_workspaceId :: "ident option"

record workspace =
  workspace_id :: ident
  shortName :: string

record issue =
  issue_id :: ident
  issue_index :: int
  issue_labels :: "ident list"

record workflow =
  workflow_title :: string
  workflow_index :: int
  workflow_issue :: "issue list"

text \<open>
  A project row with its relations nested: \<open>members\<close> holds the ids of the connected
  users (the relation that \<open>User.projects\<close> reads from the other side), \<open>workflows\<close>
  the workflow rows of the project, each with its issues.
\<close>

record project =
  project_id :: ident
  project_name :: string
  projectType :: ProjectType
  projectLeadId :: ident
  defaultAssigneeId :: "ident option"
  project_workspaceId :: "ident option"
  members :: "ident list"
  workflows :: "workflow list"

record label =
  label_id :: ident
  label_title :: string
  label_color :: string
  label_description :: "string option"
  label_projectId :: ident
  label_issues :: "ident list"

record store =
  users :: "user list"
  workspaces :: "workspace list"
  projects :: "project list"
  labels :: "label list"

text \<open>The protected procedures read the caller from \<open>ctx.session.user.id\<close>.\<close>

record ctx =
  session_user_id :: ident

text \<open>
  \<open>UNAUTHORIZED\<close> and \<open>BAD_REQUEST\<close> are the codes of the \<open>TRPCError\<close>s the router
  constructs itself. \<open>ZodError\<close> is the rejection of an input by the procedure's schema,
  which happens before the resolver runs. \<open>NotFoundError\<close>, \<open>UniqueConstraintError\<close> and
  \<open>ForeignKeyError\<close> are the errors of the Prisma client for a missing record, a taken
  key and a reference to a row that does not exist.
\<close>

datatype error =
  UNAUTHORIZED | BAD_REQUEST | ZodError | NotFoundError | UniqueConstraintError | ForeignKeyError

subsection \<open>The default workflows of a project type\<close>

definition projectTypesList :: "ProjectType \<Rightarrow> ProjectInfo" where
  "projectTypesList t =
     (case t of
        KANBAN \<Rightarrow>
          \<lparr>defaultWorkflows = [''Backlog'', ''To Do'', ''In Progress'', ''Done''],
           projectName = ''Kanban''\<rparr>
      | SCRUM \<Rightarrow>
          \<lparr>defaultWorkflows = [''Backlog'', ''To Do'', ''In Progress'', ''Review'', ''Done''],
           projectName = ''Scrum''\<rparr>)"

subsection \<open>The calls of the Prisma client that the router makes\<close>

text \<open>
  Each call is written for the arguments the router gives it. A call that the client
  rejects leaves the store as it was. The database schema is not part of the router
  source. Of the constraints between tables the model has these: \<open>connect\<close> needs the
  row it names, and a label needs the project that its \<open>projectId\<close> names. The lead,
  default assignee and workspace that \<open>project.create\<close> and \<open>project.update\<close> write are
  stored as given, and \<open>project.delete\<close> removes the project row only.
\<close>

definition workspace_findFirst :: "store \<Rightarrow> string \<Rightarrow> workspace option" where
  "workspace_findFirst st sn = find (\<lambda>w. shortName w = sn) (workspaces st)"

definition project_findFirst :: "store \<Rightarrow> ident \<Rightarrow> project option" where
  "project_findFirst st i = find (\<lambda>p. project_id p = i) (projects st)"

definition project_findUniqueOrThrow :: "store \<Rightarrow> ident \<Rightarrow> error + project" where
  "project_findUniqueOrThrow st i =
     (case find (\<lambda>p. project_id p = i) (projects st) of
        None \<Rightarrow> Inl NotFoundError
      | Some p \<Rightarrow> Inr p)"

definition user_findUnique :: "store \<Rightarrow> ident \<Rightarrow> user option" where
  "user_findUnique st i = find (\<lambda>u. user_id u = i) (users st)"

text \<open>
  Modelled from the spec: the uniqueness constraints of the Workflow table, whose schema
  is not part of the source. The spec has the index unique within a project and has
  duplicate titles of a batch skipped, so two rows of one project collide when they
  share the title or the index.
\<close>

definition workflow_conflict :: "workflow \<Rightarrow> workflow \<Rightarrow> bool" where
  "workflow_conflict v w \<longleftrightarrow>
     workflow_title v = workflow_title w \<or> workflow_index v = workflow_index w"

text \<open>
  \<open>createMany\<close> with \<open>skipDuplicates: true\<close>: the rows are inserted in order, and a row
  that collides with one already there is left out instead of raising.
\<close>

fun createMany_skipDuplicates :: "workflow list \<Rightarrow> workflow list \<Rightarrow> workflow list" where
  "createMany_skipDuplicates present [] = present"
| "createMany_skipDuplicates present (w # ws) =
     createMany_skipDuplicates
       (if list_ex (\<lambda>v. workflow_conflict v w) present then present else present @ [w]) ws"

text \<open>
  \<open>project.create\<close> with the data of \<open>createProject\<close>. The id column is filled by the
  store; the value it draws is the argument \<open>new_id\<close>, and a value already taken is a
  unique-constraint error. \<open>connect\<close> needs the user it names to exist. The client returns
  the new row.
\<close>

definition project_create ::
  "store \<Rightarrow> ident \<Rightarrow> string \<Rightarrow> ProjectType \<Rightarrow> ident \<Rightarrow> ident \<Rightarrow> workflow list \<Rightarrow> ident option
     \<Rightarrow> store \<times> (error + project)" where
  "project_create st new_id nm ty lead connect_id wf_data ws_id =
     (if project_findFirst st new_id \<noteq> None then (st, Inl UniqueConstraintError)
      else case user_findUnique st connect_id of
        None \<Rightarrow> (st, Inl NotFoundError)
      | Some u \<Rightarrow>
          (let p = \<lparr>project_id = new_id, project_name = nm, projectType = ty,
                    projectLeadId = lead, defaultAssigneeId = None,
                    project_workspaceId = ws_id, members = [user_id u],
                    workflows = createMany_skipDuplicates [] wf_data\<rparr>
           in (st\<lparr>projects := projects st @ [p]\<rparr>, Inr p)))"

text \<open>\<open>project.update\<close> with the data of \<open>updateProject\<close>: three columns are written.\<close>

definition project_update ::
  "store \<Rightarrow> ident \<Rightarrow> string \<Rightarrow> ident option \<Rightarrow> ident \<Rightarrow> store \<times> (error + project)" where
  "project_update st i nm assignee lead =
     (case project_findFirst st i of
        None \<Rightarrow> (st, Inl NotFoundError)
      | Some p \<Rightarrow>
          (let upd = (\<lambda>q. q\<lparr>project_name := nm, defaultAssigneeId := assignee,
                             projectLeadId := lead\<rparr>)
           in (st\<lparr>projects := map (\<lambda>q. if project_id q = i then upd q else q) (projects st)\<rparr>,
               Inr (upd p))))"

definition project_delete :: "store \<Rightarrow> ident \<Rightarrow> store \<times> (error + project)" where
  "project_delete st i =
     (case project_findFirst st i of
        None \<Rightarrow> (st, Inl NotFoundError)
      | Some p \<Rightarrow> (st\<lparr>projects := filter (\<lambda>q. project_id q \<noteq> i) (projects st)\<rparr>, Inr p))"

text \<open>
  \<open>user.update\<close> with the \<open>where\<close> and \<open>data\<close> of \<open>assignUserToProject\<close>: the user row
  is looked up by \<open>id\<close> and \<open>workspaceId\<close>, and the project named by \<open>connect\<close> is added
  to that user's projects, which makes the user a member of it.
\<close>

definition user_update_connect_project ::
  "store \<Rightarrow> ident \<Rightarrow> ident \<Rightarrow> ident \<Rightarrow> store \<times> (error + user)" where
  "user_update_connect_project st where_id where_workspaceId connect_id =
     (case find (\<lambda>u. user_id u = where_id \<and> user_workspaceId u = Some where_workspaceId)
             (users st) of
        None \<Rightarrow> (st, Inl NotFoundError)
      | Some u \<Rightarrow>
          (case project_findFirst st connect_id of
             None \<Rightarrow> (st, Inl NotFoundError)
           | Some p \<Rightarrow>
               (st\<lparr>projects :=
                     map (\<lambda>q. if project_id q = connect_id
                               then q\<lparr>members := List.insert (user_id u) (members q)\<rparr> else q)
                       (projects st)\<rparr>,
                Inr u)))"

text \<open>
  \<open>label.create\<close>. \<open>projectId\<close> is the column of the relation that \<open>getProjectById\<close>
  reads as the \<open>labels\<close> of a project, so a label whose \<open>projectId\<close> names no project is
  refused with a foreign-key error. The id is drawn by the store as for a project. A new
  label has no issues.
\<close>

definition label_create ::
  "store \<Rightarrow> ident \<Rightarrow> string \<Rightarrow> string \<Rightarrow> ident \<Rightarrow> string option \<Rightarrow> store \<times> (error + label)" where
  "label_create st new_id title color pid description =
     (if project_findFirst st pid = None then (st, Inl ForeignKeyError)
      else if find (\<lambda>l. label_id l = new_id) (labels st) \<noteq> None
      then (st, Inl UniqueConstraintError)
      else
        (let l = \<lparr>label_id = new_id, label_title = title, label_color = color,
                  label_description = description, label_projectId = pid, label_issues = []\<rparr>
         in (st\<lparr>labels := labels st @ [l]\<rparr>, Inr l)))"

subsection \<open>The procedures of the router\<close>

record createProject_input =
  cp_name :: string
  cp_projectType :: ProjectType
  cp_workspaceShortName :: string

record updateProject_input =
  up_id :: ident
  up_name :: string
  up_defaultAssigneeId :: "ident option"
  up_projectLeadId :: ident

record assignUserToProject_input =
  au_workspaceId :: ident
  au_projectId :: ident
  au_userId :: ident

record createProjectLabels_input =
  cl_projectId :: ident
  cl_title :: string
  cl_color :: string
  cl_description :: "string option"

text \<open>
  \<open>getUserProjects\<close>: the projects that have the caller among their members or as their
  lead, each with the name and image of its lead.
\<close>

definition getUserProjects :: "ctx \<Rightarrow> store \<Rightarrow> (project \<times> (string \<times> string option) option) list" where
  "getUserProjects c st =
     map (\<lambda>p. (p, map_option (\<lambda>u. (user_name u, user_image u))
                      (user_findUnique st (projectLeadId p))))
       (filter (\<lambda>p. list_ex (\<lambda>m. m = session_user_id c) (members p)
                     \<or> projectLeadId p = session_user_id c)
          (projects st))"

definition createProject ::
  "ctx \<Rightarrow> store \<Rightarrow> ident \<Rightarrow> createProject_input \<Rightarrow> store \<times> (error + project)" where
  "createProject c st new_id inp =
     (let defaultWorkflows = defaultWorkflows (projectTypesList (cp_projectType inp));
          workspace = workspace_findFirst st (cp_workspaceShortName inp)
      in project_create st new_id (cp_name inp) (cp_projectType inp)
           (session_user_id c) (session_user_id c)
           (map (\<lambda>(index, workflow).
                   \<lparr>workflow_title = workflow, workflow_index = int index, workflow_issue = []\<rparr>)
              (enumerate 0 defaultWorkflows))
           (map_option workspace_id workspace))"

definition updateProject :: "ctx \<Rightarrow> store \<Rightarrow> updateProject_input \<Rightarrow> store \<times> (error + project)" where
  "updateProject c st inp =
     project_update st (up_id inp) (up_name inp) (up_defaultAssigneeId inp) (up_projectLeadId inp)"

text \<open>
  The \<open>try\<close> block of \<open>deleteProject\<close>: it looks the project up and either returns the
  pending delete (here: the id to delete) or throws. \<open>projectToDelete?.projectLeadId\<close> is
  undefined for a missing project and so differs from every user id.
\<close>

definition deleteProject_try :: "ctx \<Rightarrow> store \<Rightarrow> ident \<Rightarrow> error + ident" where
  "deleteProject_try c st i =
     (let projectToDelete = project_findFirst st i
      in if Some (session_user_id c) = map_option projectLeadId projectToDelete
         then Inr i
         else Inl UNAUTHORIZED)"

text \<open>
  \<open>deleteProject\<close>: whatever the \<open>try\<close> block throws is caught and replaced by a
  \<open>BAD_REQUEST\<close> error; the error thrown in the \<open>else\<close> branch is thrown inside the
  block and is caught with the rest. The delete is returned without being awaited, so it
  is settled after the \<open>try\<close> statement has been left and its own error is not caught.
\<close>

definition deleteProject :: "ctx \<Rightarrow> store \<Rightarrow> ident \<Rightarrow> store \<times> (error + project)" where
  "deleteProject c st i =
     (case deleteProject_try c st i of
        Inl err \<Rightarrow> (st, Inl BAD_REQUEST)
      | Inr pending \<Rightarrow> project_delete st pending)"

definition assignUserToProject ::
  "ctx \<Rightarrow> store \<Rightarrow> assignUserToProject_input \<Rightarrow> store \<times> (error + user)" where
  "assignUserToProject c st inp =
     user_update_connect_project st (au_projectId inp) (au_workspaceId inp) (au_userId inp)"

text \<open>
  \<open>getProjectWorkflows\<close>: \<open>findUniqueOrThrow\<close> raises for a missing project. The workflows
  are ordered by \<open>index\<close>, and so are the issues included in each. The label and count
  aggregates of an issue are read off the issue row and are not listed separately.
\<close>

definition getProjectWorkflows :: "ctx \<Rightarrow> store \<Rightarrow> ident \<Rightarrow> error + workflow list" where
  "getProjectWorkflows c st projectId =
     (case project_findUniqueOrThrow st projectId of
        Inl e \<Rightarrow> Inl e
      | Inr p \<Rightarrow>
          Inr (map (\<lambda>w. w\<lparr>workflow_issue := sort_key issue_index (workflow_issue w)\<rparr>)
                 (sort_key workflow_index (workflows p))))"

text \<open>
  The schema of \<open>createProjectLabels\<close>: \<open>title: z.string().min(4)\<close> and
  \<open>color: z.string().min(7).max(7)\<close>. A string is the list of its code units, which is
  what zod's length checks count.
\<close>

definition createProjectLabels_schema :: "createProjectLabels_input \<Rightarrow> bool" where
  "createProjectLabels_schema inp \<longleftrightarrow>
     4 \<le> length (cl_title inp) \<and> 7 \<le> length (cl_color inp) \<and> length (cl_color inp) \<le> 7"

definition createProjectLabels ::
  "ctx \<Rightarrow> store \<Rightarrow> ident \<Rightarrow> createProjectLabels_input \<Rightarrow> store \<times> (error + label)" where
  "createProjectLabels c st new_id inp =
     (if \<not> createProjectLabels_schema inp then (st, Inl ZodError)
      else label_create st new_id (cl_title inp) (cl_color inp) (cl_projectId inp)
             (cl_description inp))"

subsection \<open>A small store for concrete runs\<close>

text \<open>
  Three users in the workspace \<open>acme\<close>. Project \<open>P1\<close> is led by \<open>U1\<close> and has \<open>U2\<close> as
  a member; its workflows and their issues are stored out of order. Project \<open>P2\<close> is led
  by \<open>U3\<close> and has no members.
\<close>

definition demo_user :: "ident \<Rightarrow> string \<Rightarrow> user" where
  "demo_user i n =
     \<lparr>user_id = i, user_name = n, user_image = None, user_workspaceId = Some ''w1''\<rparr>"

definition demo_issue :: "ident \<Rightarrow> int \<Rightarrow> issue" where
  "demo_issue i k = \<lparr>issue_id = i, issue_index = k, issue_labels = []\<rparr>"

definition demo_P1 :: project where
  "demo_P1 =
     \<lparr>project_id = ''P1'', project_name = ''Alpha'', projectType = KANBAN,
      projectLeadId = ''U1'', defaultAssigneeId = None, project_workspaceId = Some ''w1'',
      members = [''U2''],
      workflows =
        [\<lparr>workflow_title = ''Done'', workflow_index = 1, workflow_issue = []\<rparr>,
         \<lparr>workflow_title = ''To Do'', workflow_index = 0,
          workflow_issue = [demo_issue ''i2'' 5, demo_issue ''i1'' 2]\<rparr>]\<rparr>"

definition demo_P2 :: project where
  "demo_P2 =
     \<lparr>project_id = ''P2'', project_name = ''Beta'', projectType = SCRUM,
      projectLeadId = ''U3'', defaultAssigneeId = None, project_workspaceId = Some ''w1'',
      members = [], workflows = []\<rparr>"

definition demo_store :: store where
  "demo_store =
     \<lparr>users = [demo_user ''U1'' ''Ada'', demo_user ''U2'' ''Bob'', demo_user ''U3'' ''Cy''],
      workspaces = [\<lparr>workspace_id = ''w1'', shortName = ''acme''\<rparr>],
      projects = [demo_P1, demo_P2],
      labels = []\<rparr>"

definition demo_label_input :: "string \<Rightarrow> string \<Rightarrow> createProjectLabels_input" where
  "demo_label_input t col =
     \<lparr>cl_projectId = ''P1'', cl_title = t, cl_color = col, cl_description = None\<rparr>"

definition demo_orphan_label_input :: createProjectLabels_input where
  "demo_orphan_label_input =
     \<lparr>cl_projectId = ''P9'', cl_title = ''bugs'', cl_color = ''#ff0000'',
      cl_description = None\<rparr>"

definition demo_update_input :: updateProject_input where
  "demo_update_input =
     \<lparr>up_id = ''P2'', up_name = ''Gamma'', up_defaultAssigneeId = Some ''U1'',
      up_projectLeadId = ''U2''\<rparr>"

lemmas demo_defs = demo_store_def demo_P1_def demo_P2_def demo_user_def demo_issue_def

section \<open>Properties of the procedures\<close>

subsection \<open>Lookups\<close>

lemma find_snoc:
  "find P (xs @ [x]) = (case find P xs of None \<Rightarrow> (if P x then Some x else None) | Some y \<Rightarrow> Some y)"
  by (induction xs) simp_all

lemma user_findUnique_id: "user_findUnique st i = Some u \<Longrightarrow> user_id u = i"
  by (auto simp: user_findUnique_def find_Some_iff)

lemma project_findFirst_id: "project_findFirst st i = Some p \<Longrightarrow> project_id p = i \<and> p \<in> set (projects st)"
  by (auto simp: project_findFirst_def find_Some_iff)

lemma project_findFirst_append:
  "project_findFirst st i = None \<Longrightarrow> project_id p = i \<Longrightarrow>
   project_findFirst (st\<lparr>projects := projects st @ [p]\<rparr>) i = Some p"
  by (simp add: project_findFirst_def find_snoc)

subsection \<open>createProject\<close>

lemma kanban_rows:
  "createMany_skipDuplicates []
     (map (\<lambda>(index, workflow).
             \<lparr>workflow_title = workflow, workflow_index = int index, workflow_issue = []\<rparr>)
        (enumerate 0 (defaultWorkflows (projectTypesList KANBAN)))) =
   [\<lparr>workflow_title = ''Backlog'', workflow_index = 0, workflow_issue = []\<rparr>,
    \<lparr>workflow_title = ''To Do'', workflow_index = 1, workflow_issue = []\<rparr>,
    \<lparr>workflow_title = ''In Progress'', workflow_index = 2, workflow_issue = []\<rparr>,
    \<lparr>workflow_title = ''Done'', workflow_index = 3, workflow_issue = []\<rparr>]"
  by (simp add: projectTypesList_def workflow_conflict_def)

lemma scrum_rows:
  "createMany_skipDuplicates []
     (map (\<lambda>(index, workflow).
             \<lparr>workflow_title = workflow, workflow_index = int index, workflow_issue = []\<rparr>)
        (enumerate 0 (defaultWorkflows (projectTypesList SCRUM)))) =
   [\<lparr>workflow_title = ''Backlog'', workflow_index = 0, workflow_issue = []\<rparr>,
    \<lparr>workflow_title = ''To Do'', workflow_index = 1, workflow_issue = []\<rparr>,
    \<lparr>workflow_title = ''In Progress'', workflow_index = 2, workflow_issue = []\<rparr>,
    \<lparr>workflow_title = ''Review'', workflow_index = 3, workflow_issue = []\<rparr>,
    \<lparr>workflow_title = ''Done'', workflow_index = 4, workflow_issue = []\<rparr>]"
  by (simp add: projectTypesList_def workflow_conflict_def)

lemma createProject_result:
  assumes caller: "user_findUnique st (session_user_id c) \<noteq> None"
    and fresh: "project_findFirst st new_id = None"
  shows "createProject c st new_id inp =
     (let p = \<lparr>project_id = new_id, project_name = cp_name inp,
               projectType = cp_projectType inp,
               projectLeadId = session_user_id c, defaultAssigneeId = None,
               project_workspaceId =
                 map_option workspace_id (workspace_findFirst st (cp_workspaceShortName inp)),
               members = [session_user_id c],
               workflows = createMany_skipDuplicates []
                 (map (\<lambda>(index, workflow).
                    \<lparr>workflow_title = workflow, workflow_index = int index, workflow_issue = []\<rparr>)
                  (enumerate 0 (defaultWorkflows (projectTypesList (cp_projectType inp)))))\<rparr>
      in (st\<lparr>projects := projects st @ [p]\<rparr>, Inr p))"
proof -
  from caller obtain u where u: "user_findUnique st (session_user_id c) = Some u" by auto
  then have "user_id u = session_user_id c" by (rule user_findUnique_id)
  with u fresh show ?thesis
    by (simp add: createProject_def project_create_def Let_def)
qed

text \<open>
  Claim C2. For both project types, \<open>createProject\<close> called by a user of the store, with
  a fresh id drawn for the row, stores a project whose workflows carry the titles of the
  type's template in the template's order, each with its position as index, whose lead
  is the caller and whose only member is the caller.
\<close>

theorem createProject_seeds_template:
  assumes caller: "user_findUnique st (session_user_id c) \<noteq> None"
    and fresh: "project_findFirst st new_id = None"
  shows "\<exists>p. createProject c st new_id inp = (st\<lparr>projects := projects st @ [p]\<rparr>, Inr p)
     \<and> project_findFirst (st\<lparr>projects := projects st @ [p]\<rparr>) new_id = Some p
     \<and> projectType p = cp_projectType inp
     \<and> map workflow_title (workflows p) =
         (case cp_projectType inp of
            KANBAN \<Rightarrow> [''Backlog'', ''To Do'', ''In Progress'', ''Done'']
          | SCRUM \<Rightarrow> [''Backlog'', ''To Do'', ''In Progress'', ''Review'', ''Done''])
     \<and> map workflow_index (workflows p) = map int [0..<length (workflows p)]
     \<and> projectLeadId p = session_user_id c
     \<and> members p = [session_user_id c]"
proof (cases "cp_projectType inp")
  case KANBAN
  show ?thesis
    using createProject_result [OF caller fresh, of inp] project_findFirst_append [OF fresh]
    by (simp add: Let_def KANBAN kanban_rows upt_rec)
next
  case SCRUM
  show ?thesis
    using createProject_result [OF caller fresh, of inp] project_findFirst_append [OF fresh]
    by (simp add: Let_def SCRUM scrum_rows upt_rec)
qed

theorem createProject_seeds_template_witness:
  "user_findUnique demo_store ''U1'' \<noteq> None \<and> project_findFirst demo_store ''P3'' = None \<and>
   (\<exists>p. createProject \<lparr>session_user_id = ''U1''\<rparr> demo_store ''P3''
           \<lparr>cp_name = ''Sprint Board'', cp_projectType = SCRUM, cp_workspaceShortName = ''acme''\<rparr>
         = (demo_store\<lparr>projects := projects demo_store @ [p]\<rparr>, Inr p)
      \<and> map workflow_title (workflows p) =
           [''Backlog'', ''To Do'', ''In Progress'', ''Review'', ''Done'']
      \<and> map workflow_index (workflows p) = [0, 1, 2, 3, 4]
      \<and> projectLeadId p = ''U1'' \<and> members p = [''U1''])"
proof -
  have caller: "user_findUnique demo_store (session_user_id \<lparr>session_user_id = ''U1''\<rparr>) \<noteq> None"
    by (simp add: user_findUnique_def demo_defs)
  have fresh: "project_findFirst demo_store ''P3'' = None"
    by (simp add: project_findFirst_def demo_defs)
  obtain p where p:
    "createProject \<lparr>session_user_id = ''U1''\<rparr> demo_store ''P3''
        \<lparr>cp_name = ''Sprint Board'', cp_projectType = SCRUM, cp_workspaceShortName = ''acme''\<rparr>
      = (demo_store\<lparr>projects := projects demo_store @ [p]\<rparr>, Inr p)"
    "map workflow_title (workflows p) = [''Backlog'', ''To Do'', ''In Progress'', ''Review'', ''Done'']"
    "map workflow_index (workflows p) = map int [0..<length (workflows p)]"
    "projectLeadId p = ''U1''" "members p = [''U1'']"
    using createProject_seeds_template [OF caller fresh,
        of "\<lparr>cp_name = ''Sprint Board'', cp_projectType = SCRUM, cp_workspaceShortName = ''acme''\<rparr>"]
    by auto
  have "length (map workflow_title (workflows p)) = 5"
    unfolding p(2) by simp
  then have "length (workflows p) = 5" by simp
  with p(3) have "map workflow_index (workflows p) = [0, 1, 2, 3, 4]"
    by (simp add: upt_rec)
  with p caller fresh show ?thesis by auto
qed

text \<open>
  Claim C5. When no workspace has the short name of the input, \<open>createProject\<close> (called
  by a user of the store, with a fresh id drawn for the row) does not fail: it stores and
  returns the project, whose workspace reference is unset.
\<close>

theorem createProject_unknown_workspace:
  assumes caller: "user_findUnique st (session_user_id c) \<noteq> None"
    and fresh: "project_findFirst st new_id = None"
    and unknown: "\<forall>w \<in> set (workspaces st). shortName w \<noteq> cp_workspaceShortName inp"
  shows "\<exists>p. createProject c st new_id inp = (st\<lparr>projects := projects st @ [p]\<rparr>, Inr p)
     \<and> project_id p = new_id \<and> project_name p = cp_name inp
     \<and> project_workspaceId p = None"
proof -
  from unknown have "workspace_findFirst st (cp_workspaceShortName inp) = None"
    by (auto simp: workspace_findFirst_def find_None_iff)
  then show ?thesis
    using createProject_result [OF caller fresh, of inp] by (simp add: Let_def)
qed

theorem createProject_unknown_workspace_witness:
  "user_findUnique demo_store ''U1'' \<noteq> None \<and> project_findFirst demo_store ''P3'' = None \<and>
   workspace_findFirst demo_store ''nope'' = None \<and>
   (\<exists>p. createProject \<lparr>session_user_id = ''U1''\<rparr> demo_store ''P3''
           \<lparr>cp_name = ''Board'', cp_projectType = KANBAN, cp_workspaceShortName = ''nope''\<rparr>
         = (demo_store\<lparr>projects := projects demo_store @ [p]\<rparr>, Inr p)
      \<and> project_workspaceId p = None)"
proof -
  have caller: "user_findUnique demo_store (session_user_id \<lparr>session_user_id = ''U1''\<rparr>) \<noteq> None"
    by (simp add: user_findUnique_def demo_defs)
  have fresh: "project_findFirst demo_store ''P3'' = None"
    by (simp add: project_findFirst_def demo_defs)
  have unknown: "\<forall>w \<in> set (workspaces demo_store). shortName w \<noteq>
      cp_workspaceShortName \<lparr>cp_name = ''Board'', cp_projectType = KANBAN, cp_workspaceShortName = ''nope''\<rparr>"
    by (simp add: demo_defs)
  have none: "workspace_findFirst demo_store ''nope'' = None"
    by (simp add: workspace_findFirst_def demo_defs)
  show ?thesis
    using caller fresh none createProject_unknown_workspace [OF caller fresh unknown]
    by auto
qed

subsection \<open>deleteProject\<close>

lemma project_delete_cases:
  "project_delete st i = (st', r) \<Longrightarrow>
     (r = Inl NotFoundError \<and> st' = st \<and> project_findFirst st i = None) \<or>
     (\<exists>p. r = Inr p \<and> project_findFirst st i = Some p
          \<and> st' = st\<lparr>projects := filter (\<lambda>q. project_id q \<noteq> i) (projects st)\<rparr>)"
  by (auto simp: project_delete_def split: option.splits)

lemma deleteProject_never_UNAUTHORIZED: "snd (deleteProject c st i) \<noteq> Inl UNAUTHORIZED"
  by (auto simp: deleteProject_def project_delete_def split: sum.splits option.splits)

lemma deleteProject_lead:
  "project_findFirst st i = Some p \<Longrightarrow> projectLeadId p = session_user_id c \<Longrightarrow>
   deleteProject c st i =
     (st\<lparr>projects := filter (\<lambda>q. project_id q \<noteq> i) (projects st)\<rparr>, Inr p)"
  by (simp add: deleteProject_def deleteProject_try_def project_delete_def)

lemma deleteProject_not_lead:
  "project_findFirst st i = Some p \<Longrightarrow> projectLeadId p \<noteq> session_user_id c \<Longrightarrow>
   deleteProject c st i = (st, Inl BAD_REQUEST)"
  by (auto simp: deleteProject_def deleteProject_try_def)

text \<open>
  Claim C1. The claim has a caller who is not the lead rejected with \<open>UNAUTHORIZED\<close>.
  The procedure does throw that error, but inside its own \<open>try\<close> block, so the caller
  receives \<open>BAD_REQUEST\<close>: here \<open>U2\<close>, a member of \<open>P1\<close> and not its lead \<open>U1\<close>, asks
  for \<open>P1\<close> to be deleted. The project stays, and the error is not \<open>UNAUTHORIZED\<close>.
\<close>

theorem deleteProject_member_BAD_REQUEST:
  "project_findFirst demo_store ''P1'' = Some demo_P1 \<and> projectLeadId demo_P1 = ''U1'' \<and>
   deleteProject \<lparr>session_user_id = ''U2''\<rparr> demo_store ''P1'' = (demo_store, Inl BAD_REQUEST)"
  by (simp add: deleteProject_def deleteProject_try_def project_findFirst_def demo_defs)

text \<open>
  Claim C4. For an id that matches no project, \<open>deleteProject\<close> fails with
  \<open>BAD_REQUEST\<close> (so neither with a not-found error nor with \<open>UNAUTHORIZED\<close>) and
  leaves the store as it was.
\<close>

theorem deleteProject_missing_BAD_REQUEST:
  "project_findFirst st i = None \<Longrightarrow> deleteProject c st i = (st, Inl BAD_REQUEST)"
  by (simp add: deleteProject_def deleteProject_try_def)

theorem deleteProject_missing_BAD_REQUEST_witness:
  "project_findFirst demo_store ''P9'' = None \<and>
   deleteProject \<lparr>session_user_id = ''U1''\<rparr> demo_store ''P9'' = (demo_store, Inl BAD_REQUEST)"
proof -
  have h: "project_findFirst demo_store ''P9'' = None"
    by (simp add: project_findFirst_def demo_defs)
  show ?thesis
    using h deleteProject_missing_BAD_REQUEST [OF h, of "\<lparr>session_user_id = ''U1''\<rparr>"] by simp
qed

text \<open>
  Claim C10. Whenever \<open>deleteProject\<close> fails, with whatever error, the store it leaves
  is the store it was given.
\<close>

theorem deleteProject_failure_keeps_store:
  "deleteProject c st i = (st', Inl e) \<Longrightarrow> st' = st"
  by (auto simp: deleteProject_def project_delete_def split: sum.splits option.splits)

theorem deleteProject_failure_keeps_store_witness:
  "snd (deleteProject \<lparr>session_user_id = ''U3''\<rparr> demo_store ''P1'') = Inl BAD_REQUEST
   \<and> fst (deleteProject \<lparr>session_user_id = ''U3''\<rparr> demo_store ''P1'') = demo_store"
proof -
  have s: "snd (deleteProject \<lparr>session_user_id = ''U3''\<rparr> demo_store ''P1'') = Inl BAD_REQUEST"
    by (simp add: deleteProject_def deleteProject_try_def project_findFirst_def demo_defs)
  then have h: "deleteProject \<lparr>session_user_id = ''U3''\<rparr> demo_store ''P1'' =
      (fst (deleteProject \<lparr>session_user_id = ''U3''\<rparr> demo_store ''P1''), Inl BAD_REQUEST)"
    by (metis prod.collapse)
  show ?thesis using s deleteProject_failure_keeps_store [OF h] by simp
qed

subsection \<open>assignUserToProject\<close>

text \<open>
  What the procedure does when it succeeds: the user whose id is the input's
  \<open>projectId\<close> becomes a member of the project whose id is the input's \<open>userId\<close>.
\<close>

lemma assignUserToProject_success:
  assumes "assignUserToProject c st inp = (st', Inr u)"
  shows "user_id u = au_projectId inp \<and> u \<in> set (users st)
     \<and> projects st' =
         map (\<lambda>q. if project_id q = au_userId inp
                   then q\<lparr>members := List.insert (au_projectId inp) (members q)\<rparr> else q)
           (projects st)"
  using assms
  by (auto simp: assignUserToProject_def user_update_connect_project_def find_Some_iff
      split: option.splits)

text \<open>
  Claim C3. The claim has the user \<open>userId\<close> a member of the project \<open>projectId\<close> after
  the call. The procedure looks for a user with the id \<open>projectId\<close> and connects the
  project with the id \<open>userId\<close>: asked to add the existing user \<open>U2\<close> to the existing
  project \<open>P2\<close>, it finds no user \<open>P2\<close>, fails, and \<open>U2\<close> is not a member of \<open>P2\<close>.
\<close>

theorem assignUserToProject_swapped_keys:
  "user_findUnique demo_store ''U2'' \<noteq> None \<and> project_findFirst demo_store ''P2'' = Some demo_P2 \<and>
   assignUserToProject \<lparr>session_user_id = ''U3''\<rparr> demo_store
       \<lparr>au_workspaceId = ''w1'', au_projectId = ''P2'', au_userId = ''U2''\<rparr>
     = (demo_store, Inl NotFoundError) \<and>
   ''U2'' \<notin> set (members demo_P2)"
  by (simp add: assignUserToProject_def user_update_connect_project_def user_findUnique_def
      project_findFirst_def demo_defs)

subsection \<open>getProjectWorkflows\<close>

text \<open>
  Claim C6. For the id of a project, \<open>getProjectWorkflows\<close> returns the project's
  workflows (the same rows, up to the order of the rows and of their issues) in
  ascending order of index, each with its issues in ascending order of index. For an id
  that matches no project it fails with the not-found error.
\<close>

theorem getProjectWorkflows_ordered:
  "(\<forall>p. project_findFirst st projectId = Some p \<longrightarrow>
      (\<exists>ws. getProjectWorkflows c st projectId = Inr ws
         \<and> sorted (map workflow_index ws)
         \<and> (\<forall>w \<in> set ws. sorted (map issue_index (workflow_issue w)))
         \<and> mset (map (\<lambda>w. (workflow_title w, workflow_index w, mset (workflow_issue w))) ws)
             = mset (map (\<lambda>w. (workflow_title w, workflow_index w, mset (workflow_issue w)))
                       (workflows p))))
   \<and> (project_findFirst st projectId = None \<longrightarrow>
        getProjectWorkflows c st projectId = Inl NotFoundError)"
proof (intro conjI allI impI)
  fix p assume p: "project_findFirst st projectId = Some p"
  let ?g = "\<lambda>w. w\<lparr>workflow_issue := sort_key issue_index (workflow_issue w)\<rparr>"
  let ?f = "\<lambda>w. (workflow_title w, workflow_index w, mset (workflow_issue w))"
  let ?ws = "map ?g (sort_key workflow_index (workflows p))"
  have res: "getProjectWorkflows c st projectId = Inr ?ws"
    using p by (simp add: getProjectWorkflows_def project_findUniqueOrThrow_def project_findFirst_def)
  have ig: "workflow_index \<circ> ?g = workflow_index" by (simp add: fun_eq_iff)
  have s1: "sorted (map workflow_index ?ws)" by (simp add: ig)
  have s2: "\<forall>w \<in> set ?ws. sorted (map issue_index (workflow_issue w))" by auto
  have fg: "?f \<circ> ?g = ?f" by (simp add: fun_eq_iff)
  have "mset (map ?f ?ws) = image_mset ?f (mset (sort_key workflow_index (workflows p)))"
    by (simp add: fg)
  then have s3: "mset (map ?f ?ws) = mset (map ?f (workflows p))" by simp
  from res s1 s2 s3
  show "\<exists>ws. getProjectWorkflows c st projectId = Inr ws
         \<and> sorted (map workflow_index ws)
         \<and> (\<forall>w \<in> set ws. sorted (map issue_index (workflow_issue w)))
         \<and> mset (map ?f ws) = mset (map ?f (workflows p))"
    by blast
next
  assume "project_findFirst st projectId = None"
  then show "getProjectWorkflows c st projectId = Inl NotFoundError"
    by (simp add: getProjectWorkflows_def project_findUniqueOrThrow_def project_findFirst_def)
qed

theorem getProjectWorkflows_ordered_witness:
  "project_findFirst demo_store ''P1'' = Some demo_P1
   \<and> getProjectWorkflows \<lparr>session_user_id = ''U2''\<rparr> demo_store ''P1'' =
       Inr [\<lparr>workflow_title = ''To Do'', workflow_index = 0,
              workflow_issue = [demo_issue ''i1'' 2, demo_issue ''i2'' 5]\<rparr>,
            \<lparr>workflow_title = ''Done'', workflow_index = 1, workflow_issue = []\<rparr>]
   \<and> (\<exists>ws. getProjectWorkflows \<lparr>session_user_id = ''U2''\<rparr> demo_store ''P1'' = Inr ws
         \<and> sorted (map workflow_index ws)
         \<and> list_all (\<lambda>w. sorted (map issue_index (workflow_issue w))) ws)
   \<and> project_findFirst demo_store ''P7'' = None
   \<and> getProjectWorkflows \<lparr>session_user_id = ''U2''\<rparr> demo_store ''P7'' = Inl NotFoundError"
proof -
  have h1: "project_findFirst demo_store ''P1'' = Some demo_P1"
    by (simp add: project_findFirst_def demo_defs)
  have h2: "project_findFirst demo_store ''P7'' = None"
    by (simp add: project_findFirst_def demo_defs)
  have v: "getProjectWorkflows \<lparr>session_user_id = ''U2''\<rparr> demo_store ''P1'' =
       Inr [\<lparr>workflow_title = ''To Do'', workflow_index = 0,
              workflow_issue = [demo_issue ''i1'' 2, demo_issue ''i2'' 5]\<rparr>,
            \<lparr>workflow_title = ''Done'', workflow_index = 1, workflow_issue = []\<rparr>]"
    by (simp add: getProjectWorkflows_def project_findUniqueOrThrow_def demo_defs)
  note t = getProjectWorkflows_ordered [of demo_store _ "\<lparr>session_user_id = ''U2''\<rparr>"]
  from t [of "''P1''"] h1 have a:
    "\<exists>ws. getProjectWorkflows \<lparr>session_user_id = ''U2''\<rparr> demo_store ''P1'' = Inr ws
         \<and> sorted (map workflow_index ws)
         \<and> list_all (\<lambda>w. sorted (map issue_index (workflow_issue w))) ws"
    unfolding list_all_iff by blast
  from t [of "''P7''"] h2 have b:
    "getProjectWorkflows \<lparr>session_user_id = ''U2''\<rparr> demo_store ''P7'' = Inl NotFoundError"
    by blast
  from h1 h2 v a b show ?thesis by blast
qed

subsection \<open>getUserProjects\<close>

text \<open>
  Claim C7. The projects that \<open>getUserProjects\<close> returns for the caller are exactly
  the projects of the store that have the caller among their members or as their lead.
\<close>

theorem getUserProjects_member_or_lead:
  "set (map fst (getUserProjects c st)) =
     {p \<in> set (projects st).
        session_user_id c \<in> set (members p) \<or> projectLeadId p = session_user_id c}"
  by (auto simp: getUserProjects_def list_ex_iff)

theorem getUserProjects_member_or_lead_witness:
  "map fst (getUserProjects \<lparr>session_user_id = ''U2''\<rparr> demo_store) = [demo_P1]
   \<and> {p \<in> set (projects demo_store).
        ''U2'' \<in> set (members p) \<or> projectLeadId p = ''U2''} = {demo_P1}"
proof -
  have v: "map fst (getUserProjects \<lparr>session_user_id = ''U2''\<rparr> demo_store) = [demo_P1]"
    by (simp add: getUserProjects_def demo_defs)
  show ?thesis
    using v getUserProjects_member_or_lead [of "\<lparr>session_user_id = ''U2''\<rparr>" demo_store]
    by simp
qed

subsection \<open>createProjectLabels\<close>

lemma createProjectLabels_schema_iff:
  "createProjectLabels_schema inp \<longleftrightarrow>
     \<not> (length (cl_title inp) < 4 \<or> length (cl_color inp) \<noteq> 7)"
  by (auto simp: createProjectLabels_schema_def)

text \<open>
  Claim C8, as stated: every input that passes the title and color checks creates the
  label. It fails for an input whose \<open>projectId\<close> names no project: the title \<open>bugs\<close>
  and the color \<open>#ff0000\<close> pass the schema, the store has no project \<open>P9\<close>, and the
  create is refused; the store still has no label.
\<close>

theorem createProjectLabels_missing_project_counterexample:
  "length (cl_title demo_orphan_label_input) = 4
   \<and> length (cl_color demo_orphan_label_input) = 7
   \<and> project_findFirst demo_store (cl_projectId demo_orphan_label_input) = None
   \<and> createProjectLabels \<lparr>session_user_id = ''U2''\<rparr> demo_store ''L1'' demo_orphan_label_input
       = (demo_store, Inl ForeignKeyError)
   \<and> labels demo_store = []"
  by (simp add: createProjectLabels_def createProjectLabels_schema_def label_create_def
      project_findFirst_def demo_orphan_label_input_def demo_defs)

text \<open>
  Claim C8, amended. An input whose title has fewer than 4 characters or whose color
  does not have exactly 7 is rejected by the schema, whatever the store holds and without
  a change to it. Every other input creates the label when its \<open>projectId\<close> names a
  project of the store (and the id drawn for the row is fresh); when its \<open>projectId\<close>
  names no project, the create is refused with the foreign-key error and the store is
  left as it was.
\<close>

theorem createProjectLabels_outcomes:
  "(length (cl_title inp) < 4 \<or> length (cl_color inp) \<noteq> 7 \<longrightarrow>
      createProjectLabels c st new_id inp = (st, Inl ZodError))
   \<and> (\<not> (length (cl_title inp) < 4 \<or> length (cl_color inp) \<noteq> 7)
        \<and> project_findFirst st (cl_projectId inp) \<noteq> None
        \<and> (\<forall>l \<in> set (labels st). label_id l \<noteq> new_id) \<longrightarrow>
      createProjectLabels c st new_id inp =
        (let l = \<lparr>label_id = new_id, label_title = cl_title inp, label_color = cl_color inp,
                  label_description = cl_description inp, label_projectId = cl_projectId inp,
                  label_issues = []\<rparr>
         in (st\<lparr>labels := labels st @ [l]\<rparr>, Inr l)))
   \<and> (\<not> (length (cl_title inp) < 4 \<or> length (cl_color inp) \<noteq> 7)
        \<and> project_findFirst st (cl_projectId inp) = None \<longrightarrow>
      createProjectLabels c st new_id inp = (st, Inl ForeignKeyError))"
proof (intro conjI impI)
  assume "length (cl_title inp) < 4 \<or> length (cl_color inp) \<noteq> 7"
  then have "\<not> createProjectLabels_schema inp"
    by (simp add: createProjectLabels_schema_iff)
  then show "createProjectLabels c st new_id inp = (st, Inl ZodError)"
    by (simp add: createProjectLabels_def)
next
  assume a: "\<not> (length (cl_title inp) < 4 \<or> length (cl_color inp) \<noteq> 7)
        \<and> project_findFirst st (cl_projectId inp) \<noteq> None
        \<and> (\<forall>l \<in> set (labels st). label_id l \<noteq> new_id)"
  then have ok: "createProjectLabels_schema inp"
    by (simp add: createProjectLabels_schema_iff)
  from a have fresh: "find (\<lambda>l. label_id l = new_id) (labels st) = None"
    by (auto simp: find_None_iff)
  from a have ex: "project_findFirst st (cl_projectId inp) \<noteq> None" by blast
  from ok fresh ex show "createProjectLabels c st new_id inp =
        (let l = \<lparr>label_id = new_id, label_title = cl_title inp, label_color = cl_color inp,
                  label_description = cl_description inp, label_projectId = cl_projectId inp,
                  label_issues = []\<rparr>
         in (st\<lparr>labels := labels st @ [l]\<rparr>, Inr l))"
    by (auto simp: createProjectLabels_def label_create_def)
next
  assume a: "\<not> (length (cl_title inp) < 4 \<or> length (cl_color inp) \<noteq> 7)
        \<and> project_findFirst st (cl_projectId inp) = None"
  then have ok: "createProjectLabels_schema inp"
    by (simp add: createProjectLabels_schema_iff)
  from a ok show "createProjectLabels c st new_id inp = (st, Inl ForeignKeyError)"
    by (simp add: createProjectLabels_def label_create_def)
qed

theorem createProjectLabels_outcomes_witness:
  "createProjectLabels \<lparr>session_user_id = ''U2''\<rparr> demo_store ''L1''
       (demo_label_input ''bug'' ''#ff0000'') = (demo_store, Inl ZodError)
   \<and> createProjectLabels \<lparr>session_user_id = ''U2''\<rparr> demo_store ''L1''
       (demo_label_input ''bugs'' ''#ff00'') = (demo_store, Inl ZodError)
   \<and> labels demo_store = []
   \<and> project_findFirst demo_store ''P1'' = Some demo_P1
   \<and> createProjectLabels \<lparr>session_user_id = ''U2''\<rparr> demo_store ''L1''
       (demo_label_input ''bugs'' ''#ff0000'') =
       (demo_store\<lparr>labels :=
          [\<lparr>label_id = ''L1'', label_title = ''bugs'', label_color = ''#ff0000'',
            label_description = None, label_projectId = ''P1'', label_issues = []\<rparr>]\<rparr>,
        Inr \<lparr>label_id = ''L1'', label_title = ''bugs'', label_color = ''#ff0000'',
             label_description = None, label_projectId = ''P1'', label_issues = []\<rparr>)
   \<and> project_findFirst demo_store ''P7'' = None
   \<and> createProjectLabels \<lparr>session_user_id = ''U2''\<rparr> demo_store ''L1''
       \<lparr>cl_projectId = ''P7'', cl_title = ''bugs'', cl_color = ''#ff0000'',
        cl_description = None\<rparr> = (demo_store, Inl ForeignKeyError)"
proof -
  note t = createProjectLabels_outcomes [of _ "\<lparr>session_user_id = ''U2''\<rparr>" demo_store "''L1''"]
  have e: "labels demo_store = []" by (simp add: demo_defs)
  have p1: "project_findFirst demo_store ''P1'' = Some demo_P1"
    by (simp add: project_findFirst_def demo_defs)
  have p7: "project_findFirst demo_store ''P7'' = None"
    by (simp add: project_findFirst_def demo_defs)
  show ?thesis
    using t [of "demo_label_input ''bug'' ''#ff0000''"]
      t [of "demo_label_input ''bugs'' ''#ff00''"]
      t [of "demo_label_input ''bugs'' ''#ff0000''"]
      t [of "\<lparr>cl_projectId = ''P7'', cl_title = ''bugs'', cl_color = ''#ff0000'',
             cl_description = None\<rparr>"]
    by (simp add: demo_label_input_def e p1 p7 Let_def)
qed

subsection \<open>updateProject\<close>

text \<open>
  Claim C9. \<open>updateProject\<close> leaves every table but the projects as it was; each
  project keeps its place and is unchanged apart from its name, default assignee and
  lead, so its type in particular is unchanged; and a project with another id than the
  input's is not changed at all.
\<close>

theorem updateProject_frame:
  "updateProject c st inp = (st', r) \<Longrightarrow>
     users st' = users st \<and> workspaces st' = workspaces st \<and> labels st' = labels st
     \<and> list_all2
         (\<lambda>p p'. p'\<lparr>project_name := project_name p, defaultAssigneeId := defaultAssigneeId p,
                      projectLeadId := projectLeadId p\<rparr> = p
                 \<and> projectType p' = projectType p
                 \<and> (project_id p \<noteq> up_id inp \<longrightarrow> p' = p))
         (projects st) (projects st')"
  by (auto simp: updateProject_def project_update_def Let_def list_all2_map2 list_all2_same
      split: option.splits)

theorem updateProject_frame_witness:
  "updateProject \<lparr>session_user_id = ''U2''\<rparr> demo_store demo_update_input =
     (demo_store\<lparr>projects :=
        [demo_P1, demo_P2\<lparr>project_name := ''Gamma'', defaultAssigneeId := Some ''U1'',
                            projectLeadId := ''U2''\<rparr>]\<rparr>,
      Inr (demo_P2\<lparr>project_name := ''Gamma'', defaultAssigneeId := Some ''U1'',
                    projectLeadId := ''U2''\<rparr>))
   \<and> list_all2 (\<lambda>p p'. projectType p' = projectType p)
        (projects demo_store)
        [demo_P1, demo_P2\<lparr>project_name := ''Gamma'', defaultAssigneeId := Some ''U1'',
                            projectLeadId := ''U2''\<rparr>]"
proof -
  have h: "updateProject \<lparr>session_user_id = ''U2''\<rparr> demo_store demo_update_input =
     (demo_store\<lparr>projects :=
        [demo_P1, demo_P2\<lparr>project_name := ''Gamma'', defaultAssigneeId := Some ''U1'',
                            projectLeadId := ''U2''\<rparr>]\<rparr>,
      Inr (demo_P2\<lparr>project_name := ''Gamma'', defaultAssigneeId := Some ''U1'',
                    projectLeadId := ''U2''\<rparr>))"
    by (simp add: updateProject_def project_update_def project_findFirst_def
        demo_update_input_def demo_defs)
  have "list_all2 (\<lambda>p p'. p'\<lparr>project_name := project_name p, defaultAssigneeId := defaultAssigneeId p,
                      projectLeadId := projectLeadId p\<rparr> = p
                 \<and> projectType p' = projectType p
                 \<and> (project_id p \<noteq> up_id demo_update_input \<longrightarrow> p' = p))
        (projects demo_store)
        [demo_P1, demo_P2\<lparr>project_name := ''Gamma'', defaultAssigneeId := Some ''U1'',
                            projectLeadId := ''U2''\<rparr>]"
    using updateProject_frame [OF h] by simp
  then have "list_all2 (\<lambda>p p'. projectType p' = projectType p)
        (projects demo_store)
        [demo_P1, demo_P2\<lparr>project_name := ''Gamma'', defaultAssigneeId := Some ''U1'',
                            projectLeadId := ''U2''\<rparr>]"
    by (rule list_all2_mono) simp
  with h show ?thesis by simp
qed

end
